theory Spec2Isabelle
  imports Complex_Main
begin

section \<open>The particle field of script.js\<close>

text \<open>
  The embedding follows the particle simulation of \<^verbatim>\<open>script.js\<close>. JavaScript numbers
  are read as real numbers (rounding of IEEE doubles is not part of the model), the
  canvas size as natural numbers (\<^verbatim>\<open>canvas.width\<close> and \<^verbatim>\<open>canvas.height\<close> are
  unsigned), and a nullable coordinate as an \<open>option\<close>. The successive results of
  \<^verbatim>\<open>Math.random()\<close> inside one call are given by a function from the call
  number to the value drawn, each value lying in \<open>[0, 1)\<close>.
\<close>

subsection \<open>Data\<close>

record canvas =
  width :: nat
  height :: nat

text \<open>The object \<^verbatim>\<open>mouse = { x: null, y: null, radius: 150 }\<close>.\<close>

record mouse =
  mouse_x :: "real option"
  mouse_y :: "real option"
  radius :: real

definition mouse_init :: mouse where
  "mouse_init = \<lparr>mouse_x = None, mouse_y = None, radius = 150\<rparr>"

text \<open>The fields of a \<^verbatim>\<open>Particle\<close>; \<open>size_p\<close> is the field \<^verbatim>\<open>size\<close>.\<close>

record particle =
  x :: real
  y :: real
  size_p :: real
  speedY :: real
  speedX :: real
  opacity :: real
  swing :: real
  swingSpeed :: real
  swingAmplitude :: real
  baseSpeedY :: real
  baseSpeedX :: real
  vx :: real
  vy :: real
  friction :: real
  returnSpeed :: real

type_synonym draws = "nat \<Rightarrow> real"

definition valid_draws :: "draws \<Rightarrow> bool" where
  "valid_draws d = (\<forall>k. 0 \<le> d k \<and> d k < 1)"

text \<open>The draws that all return the same value \<open>c\<close>, for sample runs.\<close>

definition const_draws :: "real \<Rightarrow> draws" where
  "const_draws c = (\<lambda>_. c)"

subsection \<open>Particle.reset and the constructor\<close>

definition reset :: "canvas \<Rightarrow> draws \<Rightarrow> particle \<Rightarrow> particle" where
  "reset cv d p =
     (let sy = d 3 * 0.3 + 0.1;
          sx = d 4 * 0.1 - 0.05
      in p\<lparr>x := d 0 * real (width cv),
           y := d 1 * real (height cv) - real (height cv),
           size_p := d 2 * 2.5 + 1,
           speedY := sy,
           speedX := sx,
           opacity := d 5 * 0.5 + 0.3,
           swing := d 6 * 2 * pi,
           swingSpeed := d 7 * 0.005 + 0.002,
           swingAmplitude := d 8 * 0.5 + 0.2,
           baseSpeedY := sy,
           baseSpeedX := sx,
           vx := 0,
           vy := 0\<rparr>)"

text \<open>
  A new object has no field; \<^verbatim>\<open>reset()\<close> and the rest of the constructor assign all
  fifteen, so the values of \<open>blank\<close> never show.
\<close>

definition blank :: particle where
  "blank = \<lparr>x = 0, y = 0, size_p = 0, speedY = 0, speedX = 0, opacity = 0, swing = 0,
            swingSpeed = 0, swingAmplitude = 0, baseSpeedY = 0, baseSpeedX = 0,
            vx = 0, vy = 0, friction = 0, returnSpeed = 0\<rparr>"

definition Particle :: "canvas \<Rightarrow> draws \<Rightarrow> particle" where
  "Particle cv d =
     (let p = reset cv d blank
      in p\<lparr>baseSpeedY := speedY p,
           baseSpeedX := speedX p,
           vx := 0,
           vy := 0,
           friction := 0.98,
           returnSpeed := 0.02\<rparr>)"

subsection \<open>Particle.update\<close>

text \<open>
  \<^verbatim>\<open>Math.atan2(dy, dx)\<close>: the angle of the point \<open>(dx, dy)\<close> in \<open>(-\<pi>, \<pi>]\<close>, and
  \<open>0\<close> at the origin.
\<close>

definition atan2 :: "real \<Rightarrow> real \<Rightarrow> real" where
  "atan2 b a =
     (if 0 < a then arctan (b / a)
      else if a < 0 then (if 0 \<le> b then arctan (b / a) + pi else arctan (b / a) - pi)
      else if 0 < b then pi / 2
      else if b < 0 then - (pi / 2)
      else 0)"

text \<open>Lines 102 to 119: the push away from the pointer.\<close>

definition update_interact :: "mouse \<Rightarrow> particle \<Rightarrow> particle" where
  "update_interact m p =
     (case (mouse_x m, mouse_y m) of
        (Some mx, Some my) \<Rightarrow>
          (let dx = x p - mx;
               dy = y p - my;
               distance = sqrt (dx * dx + dy * dy)
           in if distance < radius m
              then (let force = (radius m - distance) / radius m;
                        angle = atan2 dy dx
                    in p\<lparr>vx := vx p + cos angle * force * 2,
                         vy := vy p + sin angle * force * 2,
                         opacity := min 0.9 (opacity p + 0.02)\<rparr>)
              else p)
      | _ \<Rightarrow> p)"

text \<open>Lines 121 to 136: friction, return to the base speed, swing, movement, opacity.\<close>

definition update_motion :: "particle \<Rightarrow> particle" where
  "update_motion p =
     (let vx1 = vx p * friction p;
          vy1 = vy p * friction p;
          vy2 = vy1 + (baseSpeedY p - vy1) * returnSpeed p;
          swing1 = swing p + swingSpeed p;
          x1 = x p + (vx1 + baseSpeedX p + sin swing1 * swingAmplitude p * 0.1);
          y1 = y p + vy2;
          opacity1 = opacity p + (0.4 - opacity p) * 0.01
      in p\<lparr>vx := vx1, vy := vy2, swing := swing1, x := x1, y := y1, opacity := opacity1\<rparr>)"

text \<open>Lines 138 to 149: respawn below the screen, wrap around horizontally.\<close>

definition update_bounds :: "canvas \<Rightarrow> draws \<Rightarrow> particle \<Rightarrow> particle" where
  "update_bounds cv d p =
     (let p1 = (if y p > real (height cv) + 10 then (reset cv d p)\<lparr>y := - 10\<rparr> else p)
      in if x p1 > real (width cv) + 10 then p1\<lparr>x := - 10\<rparr>
         else if x p1 < - 10 then p1\<lparr>x := real (width cv) + 10\<rparr>
         else p1)"

definition update :: "canvas \<Rightarrow> mouse \<Rightarrow> draws \<Rightarrow> particle \<Rightarrow> particle" where
  "update cv m d p = update_bounds cv d (update_motion (update_interact m p))"

text \<open>
  Consecutive calls of \<^verbatim>\<open>update()\<close> on one particle: each call sees the pointer of
  its frame and its own random draws.
\<close>

fun updates :: "canvas \<Rightarrow> (mouse \<times> draws) list \<Rightarrow> particle \<Rightarrow> particle" where
  "updates cv [] p = p"
| "updates cv ((m, d) # fs) p = updates cv fs (update cv m d p)"

text \<open>
  A run of calls in which \<^verbatim>\<open>reset()\<close> is never reached: after the movement of each
  call, \<open>y\<close> does not exceed \<open>canvas.height + 10\<close>.
\<close>

fun no_respawn :: "canvas \<Rightarrow> (mouse \<times> draws) list \<Rightarrow> particle \<Rightarrow> bool" where
  "no_respawn cv [] p = True"
| "no_respawn cv ((m, d) # fs) p =
     (\<not> y (update_motion (update_interact m p)) > real (height cv) + 10 \<and>
      no_respawn cv fs (update cv m d p))"

subsection \<open>The pointer handlers\<close>

text \<open>A \<^verbatim>\<open>Touch\<close> of \<^verbatim>\<open>e.touches\<close>, with the two coordinates the handler reads.\<close>

record touch =
  clientX :: real
  clientY :: real

definition mousemove :: "real \<Rightarrow> real \<Rightarrow> mouse \<Rightarrow> mouse" where
  "mousemove cx cy m = m\<lparr>mouse_x := Some cx, mouse_y := Some cy\<rparr>"

definition mouseout :: "mouse \<Rightarrow> mouse" where
  "mouseout m = m\<lparr>mouse_x := None, mouse_y := None\<rparr>"

definition touchmove :: "touch list \<Rightarrow> mouse \<Rightarrow> mouse" where
  "touchmove touches m =
     (if length touches > 0
      then m\<lparr>mouse_x := Some (clientX (touches ! 0)), mouse_y := Some (clientY (touches ! 0))\<rparr>
      else m)"

definition touchend :: "mouse \<Rightarrow> mouse" where
  "touchend m = m\<lparr>mouse_x := None, mouse_y := None\<rparr>"

subsection \<open>The page state\<close>

text \<open>
  The calls made on the 2D context, in the order they are made. The assignment
  \<^verbatim>\<open>ctx.strokeStyle = `rgba(${color}, ${opacity})`\<close> is kept as the colour text and
  the alpha value.
\<close>

datatype ctx_op =
    BeginPath
  | StrokeStyle string real
  | LineWidth real
  | MoveTo real real
  | LineTo real real
  | Stroke

text \<open>
  The module-level variables of the particle effect, the \<^verbatim>\<open>data-theme\<close> attribute
  of the document, and the calls received so far by \<^verbatim>\<open>ctx\<close>.
\<close>

record page =
  canvas :: canvas
  particles :: "particle list"
  mouse :: mouse
  data_theme :: string
  ctx :: "ctx_op list"

subsection \<open>initParticles\<close>

text \<open>
  The loop of \<^verbatim>\<open>initParticles\<close>: \<open>k\<close> counts the calls of \<^verbatim>\<open>Math.random()\<close> made so
  far (nine in the constructor, one for \<open>y\<close>). The index \<open>i\<close> is always the last
  position of the list here, so \<^verbatim>\<open>particles[i]\<close> is the particle just pushed.
\<close>

function initParticles_loop ::
  "canvas \<Rightarrow> draws \<Rightarrow> nat \<Rightarrow> nat \<Rightarrow> nat \<Rightarrow> particle list \<Rightarrow> particle list" where
  "initParticles_loop cv rng k particleCount i ps =
     (if i < particleCount
      then (let ps1 = ps @ [Particle cv (\<lambda>j. rng (k + j))];
                ps2 = ps1[i := (ps1 ! i)\<lparr>y := rng (k + 9) * real (height cv)\<rparr>]
            in initParticles_loop cv rng (k + 10) particleCount (i + 1) ps2)
      else ps)"
  by pat_completeness auto
termination
  by (relation "measure (\<lambda>(cv, rng, k, particleCount, i, ps). particleCount - i)") auto

definition initParticles :: "draws \<Rightarrow> page \<Rightarrow> page" where
  "initParticles rng s =
     (let particleCount = nat \<lfloor>real (width (canvas s) * height (canvas s)) / 6000\<rfloor>
      in s\<lparr>particles := initParticles_loop (canvas s) rng 0 particleCount 0 []\<rparr>)"

subsection \<open>drawConnections\<close>

definition theme_color :: "string \<Rightarrow> string" where
  "theme_color theme = (if theme = ''dark'' then ''255, 255, 255'' else ''0, 0, 0'')"

text \<open>Lines 190 to 195: the line from particle \<open>p\<close> to the pointer.\<close>

definition pointer_line :: "string \<Rightarrow> real \<Rightarrow> particle \<Rightarrow> real \<Rightarrow> real \<Rightarrow> ctx_op list" where
  "pointer_line color a p mx my =
     [BeginPath, StrokeStyle color a, LineWidth 0.5, MoveTo (x p) (y p), LineTo mx my, Stroke]"

text \<open>Lines 205 to 210: the line from particle \<open>p\<close> to particle \<open>q\<close>.\<close>

definition pair_line :: "string \<Rightarrow> real \<Rightarrow> particle \<Rightarrow> particle \<Rightarrow> ctx_op list" where
  "pair_line color a p q =
     [BeginPath, StrokeStyle color a, LineWidth 0.3, MoveTo (x p) (y p), LineTo (x q) (y q), Stroke]"

text \<open>The inner loop, lines 198 to 212; \<open>out\<close> collects the calls.\<close>

function connect_inner ::
  "string \<Rightarrow> particle list \<Rightarrow> nat \<Rightarrow> nat \<Rightarrow> ctx_op list \<Rightarrow> ctx_op list" where
  "connect_inner color ps i j out =
     (if j < length ps
      then (let dx2 = x (ps ! i) - x (ps ! j);
                dy2 = y (ps ! i) - y (ps ! j);
                distance2 = sqrt (dx2 * dx2 + dy2 * dy2);
                out1 = (if distance2 < 80
                        then (let opacity2 = (1 - distance2 / 80) * 0.1
                              in out @ pair_line color opacity2 (ps ! i) (ps ! j))
                        else out)
            in connect_inner color ps i (j + 1) out1)
      else out)"
  by pat_completeness auto
termination
  by (relation "measure (\<lambda>(color, ps, i, j, out). length ps - j)") auto

text \<open>The outer loop, lines 182 to 214, for a pointer at \<open>(mx, my)\<close> with radius \<open>r\<close>.\<close>

function connect_outer ::
  "string \<Rightarrow> real \<Rightarrow> real \<Rightarrow> real \<Rightarrow> particle list \<Rightarrow> nat \<Rightarrow> ctx_op list \<Rightarrow> ctx_op list" where
  "connect_outer color mx my r ps i out =
     (if i < length ps
      then (let dx = x (ps ! i) - mx;
                dy = y (ps ! i) - my;
                distance = sqrt (dx * dx + dy * dy);
                out1 = (if distance < r * 1.5
                        then (let opacity1 = (1 - distance / (r * 1.5)) * 0.15;
                                  out0 = out @ pointer_line color opacity1 (ps ! i) mx my
                              in connect_inner color ps i (i + 1) out0)
                        else out)
            in connect_outer color mx my r ps (i + 1) out1)
      else out)"
  by pat_completeness auto
termination
  by (relation "measure (\<lambda>(color, mx, my, r, ps, i, out). length ps - i)") auto

definition drawConnections :: "page \<Rightarrow> page" where
  "drawConnections s =
     (case (mouse_x (mouse s), mouse_y (mouse s)) of
        (Some mx, Some my) \<Rightarrow>
          s\<lparr>ctx := connect_outer (theme_color (data_theme s)) mx my (radius (mouse s))
                     (particles s) 0 (ctx s)\<rparr>
      | _ \<Rightarrow> s)"

subsection \<open>The debounced resize handler\<close>

text \<open>
  The timers of the host, as far as the resize handler uses them: \<open>timers\<close> holds the
  pending timeouts with their identifiers and due times, \<open>next_id\<close> the identifier the
  next \<^verbatim>\<open>setTimeout\<close> returns, \<open>resizeTimeout\<close> the variable of that name (\<open>None\<close>
  while it is undefined), and \<open>rebuilds\<close> the times at which the callback
  (\<^verbatim>\<open>resizeCanvas(); initParticles();\<close>) has run. A timeout runs exactly when it is due.
\<close>

record loop =
  timers :: "(nat \<times> real) list"
  next_id :: nat
  resizeTimeout :: "nat option"
  rebuilds :: "real list"

definition loop_init :: loop where
  "loop_init = \<lparr>timers = [], next_id = 0, resizeTimeout = None, rebuilds = []\<rparr>"

definition clearTimeout :: "nat option \<Rightarrow> loop \<Rightarrow> loop" where
  "clearTimeout h st = st\<lparr>timers := filter (\<lambda>(i, due). Some i \<noteq> h) (timers st)\<rparr>"

definition setTimeout :: "real \<Rightarrow> real \<Rightarrow> loop \<Rightarrow> nat \<times> loop" where
  "setTimeout now delay st =
     (next_id st, st\<lparr>timers := timers st @ [(next_id st, now + delay)], next_id := next_id st + 1\<rparr>)"

text \<open>Time passes up to \<open>t\<close>: the timeouts due by then run, each at its due time.\<close>

definition advance :: "real \<Rightarrow> loop \<Rightarrow> loop" where
  "advance t st =
     st\<lparr>rebuilds := rebuilds st @ map snd (filter (\<lambda>(i, due). due \<le> t) (timers st)),
        timers := filter (\<lambda>(i, due). \<not> due \<le> t) (timers st)\<rparr>"

text \<open>The handler of lines 239 to 245, called at time \<open>t\<close>.\<close>

definition on_resize :: "real \<Rightarrow> loop \<Rightarrow> loop" where
  "on_resize t st =
     (let st1 = clearTimeout (resizeTimeout st) st;
          (h, st2) = setTimeout t 200 st1
      in st2\<lparr>resizeTimeout := Some h\<rparr>)"

text \<open>Resize events at the times \<open>ts\<close>, each after the timeouts due before it.\<close>

fun resize_events :: "real list \<Rightarrow> loop \<Rightarrow> loop" where
  "resize_events [] st = st"
| "resize_events (t # ts) st = resize_events ts (on_resize t (advance t st))"

subsection \<open>Sample inputs\<close>

text \<open>
  A canvas of 800 by 600; the particle that \<^verbatim>\<open>initParticles\<close> makes on it when every
  draw is \<open>1 / 2\<close> (so \<open>x = 400\<close>, \<open>y = 300\<close>, \<open>baseSpeedY = 0.25\<close>, \<open>opacity = 0.55\<close>);
  the same particle at the bottom limit \<open>y = 610\<close>; a pointer 135 above the particle;
  and the particle after one call of \<^verbatim>\<open>update()\<close> under that pointer.
\<close>

definition canvas0 :: canvas where
  "canvas0 = \<lparr>width = 800, height = 600\<rparr>"

definition particle0 :: particle where
  "particle0 = (Particle canvas0 (const_draws (1 / 2)))\<lparr>y := 300\<rparr>"

definition falling :: particle where
  "falling = particle0\<lparr>y := 610\<rparr>"

definition pointer_above :: mouse where
  "pointer_above = \<lparr>mouse_x = Some 400, mouse_y = Some 165, radius = 150\<rparr>"

definition pushed :: particle where
  "pushed = update canvas0 pointer_above (const_draws (1 / 2)) particle0"

text \<open>
  A page holding that particle and no pointer, and a page with three particles in a row
  at distances 200, 260 and 320 from a pointer at the origin.
\<close>

definition page0 :: page where
  "page0 = \<lparr>canvas = canvas0, particles = [particle0], mouse = mouse_init,
            data_theme = ''dark'', ctx = []\<rparr>"

definition row_page :: page where
  "row_page = \<lparr>canvas = canvas0,
               particles = [blank\<lparr>x := 200\<rparr>, blank\<lparr>x := 260\<rparr>, blank\<lparr>x := 320\<rparr>],
               mouse = \<lparr>mouse_x = Some 0, mouse_y = Some 0, radius = 150\<rparr>,
               data_theme = ''dark'', ctx = []\<rparr>"

section \<open>Properties of Particle.update\<close>

subsection \<open>Bounds\<close>

lemma valid_drawsD: "valid_draws d \<Longrightarrow> 0 \<le> d k \<and> d k < 1"
  by (simp add: valid_draws_def)

lemma const_draws_apply [simp]: "const_draws c k = c"
  by (simp add: const_draws_def)

lemma valid_half: "valid_draws (const_draws (1 / 2))"
  by (simp add: valid_draws_def)

lemma particle0_eq:
  "particle0 = \<lparr>x = 400, y = 300, size_p = 2.25, speedY = 0.25, speedX = 0, opacity = 0.55,
     swing = pi, swingSpeed = 0.0045, swingAmplitude = 0.45, baseSpeedY = 0.25,
     baseSpeedX = 0, vx = 0, vy = 0, friction = 0.98, returnSpeed = 0.02\<rparr>"
  by (simp add: particle0_def canvas0_def Particle_def reset_def blank_def Let_def)

lemma update_interact_no_pointer: "update_interact mouse_init p = p"
  by (simp add: update_interact_def mouse_init_def)

lemma reset_opacity: "valid_draws d \<Longrightarrow> 0.3 \<le> opacity (reset cv d p) \<and> opacity (reset cv d p) < 0.8"
  using valid_drawsD[of d 5] by (simp add: reset_def Let_def)

lemma reset_x: "valid_draws d \<Longrightarrow> 0 \<le> x (reset cv d p) \<and> x (reset cv d p) \<le> real (width cv)"
  using valid_drawsD[of d 0] by (simp add: reset_def Let_def mult_left_le_one_le)

lemma interact_opacity:
  "0 \<le> opacity p \<Longrightarrow> opacity p \<le> 0.9 \<Longrightarrow>
   0 \<le> opacity (update_interact m p) \<and> opacity (update_interact m p) \<le> 0.9"
  by (auto simp add: update_interact_def Let_def min_def split: option.splits)

lemma motion_opacity:
  "0 \<le> opacity p \<Longrightarrow> opacity p \<le> 0.9 \<Longrightarrow>
   0 \<le> opacity (update_motion p) \<and> opacity (update_motion p) \<le> 0.9"
  by (auto simp add: update_motion_def Let_def field_simps)

lemma bounds_opacity:
  "valid_draws d \<Longrightarrow> 0 \<le> opacity p \<Longrightarrow> opacity p \<le> 0.9 \<Longrightarrow>
   0 \<le> opacity (update_bounds cv d p) \<and> opacity (update_bounds cv d p) \<le> 0.9"
  using reset_opacity[of d cv p]
  by (simp add: update_bounds_def Let_def)

lemma bounds_x:
  "valid_draws d \<Longrightarrow>
   - 10 \<le> x (update_bounds cv d p) \<and> x (update_bounds cv d p) \<le> real (width cv) + 10"
  using reset_x[of d cv p]
  by (simp add: update_bounds_def Let_def)

lemma update_opacity:
  "valid_draws d \<Longrightarrow> 0 \<le> opacity p \<Longrightarrow> opacity p \<le> 0.9 \<Longrightarrow>
   0 \<le> opacity (update cv m d p) \<and> opacity (update cv m d p) \<le> 0.9"
  unfolding update_def
  by (intro bounds_opacity) (use interact_opacity motion_opacity in blast)+

lemma update_x:
  "valid_draws d \<Longrightarrow> - 10 \<le> x (update cv m d p) \<and> x (update cv m d p) \<le> real (width cv) + 10"
  unfolding update_def by (rule bounds_x)

lemma updates_bounded:
  assumes "\<forall>f \<in> set fs. valid_draws (snd f)"
    and "0 \<le> opacity p" and "opacity p \<le> 0.9"
    and "- 10 \<le> x p" and "x p \<le> real (width cv) + 10"
  shows "0 \<le> opacity (updates cv fs p) \<and> opacity (updates cv fs p) \<le> 0.9 \<and>
         - 10 \<le> x (updates cv fs p) \<and> x (updates cv fs p) \<le> real (width cv) + 10"
  using assms
proof (induction fs arbitrary: p)
  case Nil
  then show ?case by simp
next
  case (Cons f fs)
  obtain m d where f: "f = (m, d)" by (cases f)
  from Cons.prems f have vd: "valid_draws d" by simp
  have "0 \<le> opacity (update cv m d p) \<and> opacity (update cv m d p) \<le> 0.9"
    using vd Cons.prems(2,3) by (rule update_opacity)
  moreover have "- 10 \<le> x (update cv m d p) \<and> x (update cv m d p) \<le> real (width cv) + 10"
    using vd by (rule update_x)
  moreover from Cons.prems have "\<forall>f \<in> set fs. valid_draws (snd f)" by simp
  ultimately show ?case using Cons.IH[of "update cv m d p"] f by simp
qed

lemma Particle_opacity:
  "valid_draws d \<Longrightarrow> 0.3 \<le> opacity (Particle cv d) \<and> opacity (Particle cv d) < 0.8"
  using reset_opacity[of d cv blank] by (simp add: Particle_def Let_def)

lemma Particle_x:
  "valid_draws d \<Longrightarrow> 0 \<le> x (Particle cv d) \<and> x (Particle cv d) \<le> real (width cv)"
  using reset_x[of d cv blank] by (simp add: Particle_def Let_def)

text \<open>
  C1. A particle made by the constructor (at any height \<open>y0\<close>, which covers the
  override of \<^verbatim>\<open>initParticles\<close>) keeps, through any number of consecutive calls of
  \<^verbatim>\<open>update()\<close> with any pointer positions, an opacity in \<open>[0, 0.9]\<close> and an
  \<open>x\<close> coordinate in \<open>[-10, canvas.width + 10]\<close>.
\<close>

theorem particle_opacity_x_bounded:
  assumes "valid_draws d0" and "\<forall>f \<in> set fs. valid_draws (snd f)"
  shows "0 \<le> opacity (updates cv fs ((Particle cv d0)\<lparr>y := y0\<rparr>)) \<and>
         opacity (updates cv fs ((Particle cv d0)\<lparr>y := y0\<rparr>)) \<le> 0.9 \<and>
         - 10 \<le> x (updates cv fs ((Particle cv d0)\<lparr>y := y0\<rparr>)) \<and>
         x (updates cv fs ((Particle cv d0)\<lparr>y := y0\<rparr>)) \<le> real (width cv) + 10"
proof (rule updates_bounded)
  show "\<forall>f \<in> set fs. valid_draws (snd f)" by fact
  show "0 \<le> opacity ((Particle cv d0)\<lparr>y := y0\<rparr>)" "opacity ((Particle cv d0)\<lparr>y := y0\<rparr>) \<le> 0.9"
    using Particle_opacity[OF assms(1), of cv] by simp_all
  show "- 10 \<le> x ((Particle cv d0)\<lparr>y := y0\<rparr>)" "x ((Particle cv d0)\<lparr>y := y0\<rparr>) \<le> real (width cv) + 10"
    using Particle_x[OF assms(1), of cv] by simp_all
qed

theorem particle_opacity_x_bounded_witness:
  "valid_draws (const_draws (1 / 2)) \<and>
   0 \<le> opacity (updates canvas0
          [(mouse_init, const_draws (1 / 2)), (pointer_above, const_draws (1 / 2))] particle0) \<and>
   opacity (updates canvas0
          [(mouse_init, const_draws (1 / 2)), (pointer_above, const_draws (1 / 2))] particle0)
     \<le> 0.9 \<and>
   - 10 \<le> x (updates canvas0
          [(mouse_init, const_draws (1 / 2)), (pointer_above, const_draws (1 / 2))] particle0) \<and>
   x (updates canvas0
          [(mouse_init, const_draws (1 / 2)), (pointer_above, const_draws (1 / 2))] particle0)
     \<le> 810"
proof -
  have h1: "valid_draws (const_draws (1 / 2))" by (rule valid_half)
  have h2: "\<forall>f \<in> set [(mouse_init, const_draws (1 / 2)), (pointer_above, const_draws (1 / 2))].
      valid_draws (snd f)"
    using h1 by simp
  have w: "real (width canvas0) + 10 = 810" by (simp add: canvas0_def)
  from particle_opacity_x_bounded[OF h1 h2, of canvas0 300] h1 h2
  show ?thesis unfolding particle0_def w by simp
qed

subsection \<open>Respawn and frame\<close>

lemma update_bounds_respawn:
  assumes "valid_draws d" and "y p > real (height cv) + 10"
  shows "update_bounds cv d p = (reset cv d p)\<lparr>y := - 10\<rparr>"
  using assms(2) reset_x[OF assms(1), of cv p]
  by (simp add: update_bounds_def Let_def)

text \<open>
  C3. When \<open>y\<close> exceeds \<open>canvas.height + 10\<close> after the movement, the same call of
  \<^verbatim>\<open>update()\<close> ends with \<open>y = -10\<close>, with size, speeds, opacity and swing
  parameters drawn afresh within the ranges of \<^verbatim>\<open>reset()\<close>, and with \<open>vx = vy = 0\<close>;
  the \<open>y\<close> drawn by \<^verbatim>\<open>reset()\<close> (from \<open>d 1\<close>) does not show.
\<close>

theorem update_respawn:
  assumes "valid_draws d"
    and "y (update_motion (update_interact m p)) > real (height cv) + 10"
  shows "y (update cv m d p) = - 10 \<and>
         x (update cv m d p) = d 0 * real (width cv) \<and>
         size_p (update cv m d p) = d 2 * 2.5 + 1 \<and>
         1 \<le> size_p (update cv m d p) \<and> size_p (update cv m d p) < 3.5 \<and>
         speedY (update cv m d p) = d 3 * 0.3 + 0.1 \<and>
         0.1 \<le> speedY (update cv m d p) \<and> speedY (update cv m d p) < 0.4 \<and>
         speedX (update cv m d p) = d 4 * 0.1 - 0.05 \<and>
         - 0.05 \<le> speedX (update cv m d p) \<and> speedX (update cv m d p) < 0.05 \<and>
         opacity (update cv m d p) = d 5 * 0.5 + 0.3 \<and>
         0.3 \<le> opacity (update cv m d p) \<and> opacity (update cv m d p) < 0.8 \<and>
         swing (update cv m d p) = d 6 * 2 * pi \<and>
         0 \<le> swing (update cv m d p) \<and> swing (update cv m d p) < 2 * pi \<and>
         swingSpeed (update cv m d p) = d 7 * 0.005 + 0.002 \<and>
         0.002 \<le> swingSpeed (update cv m d p) \<and> swingSpeed (update cv m d p) < 0.007 \<and>
         swingAmplitude (update cv m d p) = d 8 * 0.5 + 0.2 \<and>
         0.2 \<le> swingAmplitude (update cv m d p) \<and> swingAmplitude (update cv m d p) < 0.7 \<and>
         baseSpeedY (update cv m d p) = speedY (update cv m d p) \<and>
         baseSpeedX (update cv m d p) = speedX (update cv m d p) \<and>
         vx (update cv m d p) = 0 \<and> vy (update cv m d p) = 0"
proof -
  have eq: "update cv m d p = (reset cv d (update_motion (update_interact m p)))\<lparr>y := - 10\<rparr>"
    unfolding update_def using assms by (rule update_bounds_respawn)
  have "0 < pi" by simp
  then show ?thesis
    unfolding eq
    using valid_drawsD[OF assms(1), of 2] valid_drawsD[OF assms(1), of 3]
      valid_drawsD[OF assms(1), of 4] valid_drawsD[OF assms(1), of 5]
      valid_drawsD[OF assms(1), of 6] valid_drawsD[OF assms(1), of 7]
      valid_drawsD[OF assms(1), of 8]
    by (simp add: reset_def Let_def)
qed


theorem update_respawn_witness:
  "valid_draws (const_draws (1 / 2)) \<and>
   y (update_motion (update_interact mouse_init falling)) > real (height canvas0) + 10 \<and>
   y (update canvas0 mouse_init (const_draws (1 / 2)) falling) = - 10 \<and>
   size_p (update canvas0 mouse_init (const_draws (1 / 2)) falling) = 2.25 \<and>
   opacity (update canvas0 mouse_init (const_draws (1 / 2)) falling) = 0.55 \<and>
   vy (update canvas0 mouse_init (const_draws (1 / 2)) falling) = 0"
proof -
  have h1: "valid_draws (const_draws (1 / 2))" by (rule valid_half)
  have h2: "y (update_motion (update_interact mouse_init falling)) > real (height canvas0) + 10"
    by (simp add: update_interact_no_pointer update_motion_def falling_def particle0_eq
        canvas0_def Let_def)
  from update_respawn[OF h1 h2] h1 h2 show ?thesis by simp
qed

lemma update_no_respawn:
  assumes "\<not> y (update_motion (update_interact m p)) > real (height cv) + 10"
  shows "update cv m d p =
     (let q = update_motion (update_interact m p)
      in if x q > real (width cv) + 10 then q\<lparr>x := - 10\<rparr>
         else if x q < - 10 then q\<lparr>x := real (width cv) + 10\<rparr>
         else q)"
  using assms by (simp add: update_def update_bounds_def Let_def)

text \<open>
  C9. When \<open>y\<close> does not exceed \<open>canvas.height + 10\<close> after the movement, one call of
  \<^verbatim>\<open>update()\<close> changes at most \<open>x\<close>, \<open>y\<close>, \<open>vx\<close>, \<open>vy\<close>, the swing phase and
  the opacity: size, swing speed, swing amplitude, base speeds, friction and return
  speed stay as they were.
\<close>

theorem update_frame:
  assumes "\<not> y (update_motion (update_interact m p)) > real (height cv) + 10"
  shows "update cv m d p =
           p\<lparr>x := x (update cv m d p), y := y (update cv m d p),
             vx := vx (update cv m d p), vy := vy (update cv m d p),
             swing := swing (update cv m d p), opacity := opacity (update cv m d p)\<rparr> \<and>
         size_p (update cv m d p) = size_p p \<and>
         swingSpeed (update cv m d p) = swingSpeed p \<and>
         swingAmplitude (update cv m d p) = swingAmplitude p \<and>
         baseSpeedX (update cv m d p) = baseSpeedX p \<and>
         baseSpeedY (update cv m d p) = baseSpeedY p \<and>
         friction (update cv m d p) = friction p \<and>
         returnSpeed (update cv m d p) = returnSpeed p"
  unfolding update_no_respawn[OF assms]
  by (simp add: update_motion_def update_interact_def Let_def split: option.splits)

theorem update_frame_witness:
  "\<not> y (update_motion (update_interact mouse_init particle0)) > real (height canvas0) + 10 \<and>
   size_p (update canvas0 mouse_init (const_draws (1 / 2)) particle0) = 2.25 \<and>
   friction (update canvas0 mouse_init (const_draws (1 / 2)) particle0) = 0.98"
proof -
  have h: "\<not> y (update_motion (update_interact mouse_init particle0))
             > real (height canvas0) + 10"
    by (simp add: update_interact_no_pointer update_motion_def particle0_eq canvas0_def Let_def)
  have p: "size_p particle0 = 2.25" "friction particle0 = 0.98"
    by (simp_all add: particle0_eq)
  from update_frame[OF h, of "const_draws (1 / 2)"] h show ?thesis by (simp add: p)
qed

subsection \<open>Repulsion\<close>

lemma sqrt_ratio:
  assumes "a \<noteq> 0"
  shows "sqrt (1 + (b / a)\<^sup>2) = sqrt (a * a + b * b) / \<bar>a\<bar>"
proof -
  have "1 + (b / a)\<^sup>2 = (a * a + b * b) / a\<^sup>2"
    using assms by (simp add: field_simps power2_eq_square)
  then show ?thesis
    by (simp add: real_sqrt_divide)
qed

lemma cos_atan2:
  assumes "a \<noteq> 0 \<or> b \<noteq> 0"
  shows "cos (atan2 b a) = a / sqrt (a * a + b * b)"
proof -
  consider "0 < a" | "a < 0" | "a = 0" "b \<noteq> 0" using assms by fastforce
  then show ?thesis
  proof cases
    case 1
    then show ?thesis
      by (simp add: atan2_def cos_arctan sqrt_ratio)
  next
    case 2
    then show ?thesis
      by (simp add: atan2_def cos_arctan sqrt_ratio cos_add cos_diff)
  next
    case 3
    then show ?thesis
      by (simp add: atan2_def)
  qed
qed

lemma sin_atan2:
  assumes "a \<noteq> 0 \<or> b \<noteq> 0"
  shows "sin (atan2 b a) = b / sqrt (a * a + b * b)"
proof -
  consider "0 < a" | "a < 0" | "a = 0" "0 < b" | "a = 0" "b < 0" using assms by fastforce
  then show ?thesis
  proof cases
    case 1
    then show ?thesis
      by (simp add: atan2_def sin_arctan sqrt_ratio)
  next
    case 2
    then show ?thesis
      by (simp add: atan2_def sin_arctan sqrt_ratio sin_add sin_diff)
  next
    case 3
    then show ?thesis
      by (simp add: atan2_def)
  next
    case 4
    then show ?thesis
      by (simp add: atan2_def)
  qed
qed

text \<open>
  C4. With a pointer present and the particle at distance \<open>d < 150\<close> from it, the force
  is \<open>(150 - d) / 150\<close>, which lies in \<open>(0, 1]\<close>; the interaction velocity grows by
  \<open>(cos angle, sin angle) * force * 2\<close>, where for \<open>d \<noteq> 0\<close> the vector
  \<open>(cos angle, sin angle)\<close> is the unit vector from the pointer to the particle; at
  \<open>d = 50\<close> the force is \<open>2 / 3\<close>.
\<close>

theorem repulsion_force:
  assumes "mouse_x m = Some mx" and "mouse_y m = Some my" and "radius m = 150"
    and "sqrt ((x p - mx) * (x p - mx) + (y p - my) * (y p - my)) < 150"
  shows "let dx = x p - mx;
             dy = y p - my;
             dist = sqrt (dx * dx + dy * dy);
             force = (150 - dist) / 150;
             angle = atan2 dy dx
         in 0 < force \<and> force \<le> 1 \<and>
            vx (update_interact m p) = vx p + cos angle * force * 2 \<and>
            vy (update_interact m p) = vy p + sin angle * force * 2 \<and>
            (dist \<noteq> 0 \<longrightarrow> cos angle = dx / dist \<and> sin angle = dy / dist) \<and>
            (dist = 50 \<longrightarrow> force = 2 / 3)"
proof -
  define dx where "dx = x p - mx"
  define dy where "dy = y p - my"
  define dist where "dist = sqrt (dx * dx + dy * dy)"
  have d0: "0 \<le> dist" by (simp add: dist_def)
  have d1: "dist < 150" using assms(4) by (simp add: dist_def dx_def dy_def)
  have f: "0 < (150 - dist) / 150 \<and> (150 - dist) / 150 \<le> 1" using d0 d1 by simp
  have v: "vx (update_interact m p) = vx p + cos (atan2 dy dx) * ((150 - dist) / 150) * 2 \<and>
           vy (update_interact m p) = vy p + sin (atan2 dy dx) * ((150 - dist) / 150) * 2"
    using assms by (simp add: update_interact_def Let_def dist_def dx_def dy_def)
  have dir: "dist \<noteq> 0 \<longrightarrow> cos (atan2 dy dx) = dx / dist \<and> sin (atan2 dy dx) = dy / dist"
  proof
    assume "dist \<noteq> 0"
    then have "dx \<noteq> 0 \<or> dy \<noteq> 0" by (auto simp add: dist_def)
    then show "cos (atan2 dy dx) = dx / dist \<and> sin (atan2 dy dx) = dy / dist"
      unfolding dist_def by (simp add: cos_atan2 sin_atan2)
  qed
  have "dist = 50 \<longrightarrow> (150 - dist) / 150 = 2 / 3" by simp
  with f v dir show ?thesis
    unfolding Let_def dx_def[symmetric] dy_def[symmetric] dist_def[symmetric] by blast
qed

theorem repulsion_force_witness:
  "mouse_x pointer_above = Some 400 \<and> mouse_y pointer_above = Some 165 \<and>
   radius pointer_above = 150 \<and>
   sqrt ((x particle0 - 400) * (x particle0 - 400) +
         (y particle0 - 165) * (y particle0 - 165)) < 150 \<and>
   vx (update_interact pointer_above particle0) = 0 \<and>
   vy (update_interact pointer_above particle0) = 1 / 5"
proof -
  have s: "sqrt 18225 = 135"
    using real_sqrt_abs2[of 135] by simp
  have a: "atan2 135 0 = pi / 2" by (simp add: atan2_def)
  have h1: "mouse_x pointer_above = Some 400" and h2: "mouse_y pointer_above = Some 165"
    and h3: "radius pointer_above = 150"
    by (simp_all add: pointer_above_def)
  have h4: "sqrt ((x particle0 - 400) * (x particle0 - 400) +
         (y particle0 - 165) * (y particle0 - 165)) < 150"
    by (simp add: particle0_eq s)
  from repulsion_force[OF h1 h2 h3 h4] h1 h2 h3 h4
  show ?thesis by (simp add: Let_def particle0_eq s a)
qed

subsection \<open>Pointer handlers\<close>

lemma handlers_keep_radius:
  "radius (mousemove cx cy m) = radius m" "radius (mouseout m) = radius m"
  "radius (touchmove touches m) = radius m" "radius (touchend m) = radius m"
  by (simp_all add: mousemove_def mouseout_def touchmove_def touchend_def)

text \<open>
  C10. A touch-move with an empty touch list leaves the pointer as it is; one with at
  least one touch stores the coordinates of the first touch.
\<close>

theorem touchmove_first_or_unchanged:
  "touchmove [] m = m \<and>
   touchmove (t # ts) m = m\<lparr>mouse_x := Some (clientX t), mouse_y := Some (clientY t)\<rparr>"
  by (simp add: touchmove_def)

subsection \<open>initParticles\<close>

declare initParticles_loop.simps [simp del]

lemma initParticles_loop_eq:
  assumes "length ps = i"
  shows "initParticles_loop cv rng k n i ps =
         ps @ map (\<lambda>j. (Particle cv (\<lambda>q. rng (k + 10 * (j - i) + q)))
                          \<lparr>y := rng (k + 10 * (j - i) + 9) * real (height cv)\<rparr>) [i..<n]"
  using assms
proof (induction cv rng k n i ps rule: initParticles_loop.induct)
  case (1 cv rng k n i ps)
  show ?case
  proof (cases "i < n")
    case False
    then show ?thesis by (subst initParticles_loop.simps) simp
  next
    case True
    define P where "P = (Particle cv (\<lambda>j. rng (k + j)))\<lparr>y := rng (k + 9) * real (height cv)\<rparr>"
    have upd: "(ps @ [Particle cv (\<lambda>j. rng (k + j))])
                 [i := ((ps @ [Particle cv (\<lambda>j. rng (k + j))]) ! i)
                         \<lparr>y := rng (k + 9) * real (height cv)\<rparr>] = ps @ [P]"
      unfolding "1.prems"[symmetric] P_def by simp
    have len: "length (ps @ [P]) = i + 1" using "1.prems" by simp
    have ih: "initParticles_loop cv rng (k + 10) n (i + 1) (ps @ [P]) =
        (ps @ [P]) @ map (\<lambda>j. (Particle cv (\<lambda>q. rng (k + 10 + 10 * (j - (i + 1)) + q)))
                          \<lparr>y := rng (k + 10 + 10 * (j - (i + 1)) + 9) * real (height cv)\<rparr>) [i + 1..<n]"
      using "1.IH"[OF True refl refl, unfolded upd, OF len] .
    have shift: "map (\<lambda>j. (Particle cv (\<lambda>q. rng (k + 10 + 10 * (j - (i + 1)) + q)))
                          \<lparr>y := rng (k + 10 + 10 * (j - (i + 1)) + 9) * real (height cv)\<rparr>) [i + 1..<n]
               = map (\<lambda>j. (Particle cv (\<lambda>q. rng (k + 10 * (j - i) + q)))
                          \<lparr>y := rng (k + 10 * (j - i) + 9) * real (height cv)\<rparr>) [i + 1..<n]"
    proof (rule map_cong[OF refl])
      fix j assume "j \<in> set [i + 1..<n]"
      then have e: "k + 10 + 10 * (j - (i + 1)) = k + 10 * (j - i)" by auto
      show "(Particle cv (\<lambda>q. rng (k + 10 + 10 * (j - (i + 1)) + q)))
                          \<lparr>y := rng (k + 10 + 10 * (j - (i + 1)) + 9) * real (height cv)\<rparr>
          = (Particle cv (\<lambda>q. rng (k + 10 * (j - i) + q)))
                          \<lparr>y := rng (k + 10 * (j - i) + 9) * real (height cv)\<rparr>"
        unfolding e ..
    qed
    have "initParticles_loop cv rng k n i ps = initParticles_loop cv rng (k + 10) n (i + 1) (ps @ [P])"
      using True by (subst initParticles_loop.simps) (simp add: Let_def upd)
    also have "\<dots> = ps @ P # map (\<lambda>j. (Particle cv (\<lambda>q. rng (k + 10 * (j - i) + q)))
                          \<lparr>y := rng (k + 10 * (j - i) + 9) * real (height cv)\<rparr>) [i + 1..<n]"
      unfolding ih shift by simp
    also have "\<dots> = ps @ map (\<lambda>j. (Particle cv (\<lambda>q. rng (k + 10 * (j - i) + q)))
                          \<lparr>y := rng (k + 10 * (j - i) + 9) * real (height cv)\<rparr>) [i..<n]"
      using True by (simp add: upt_conv_Cons P_def)
    finally show ?thesis .
  qed
qed

lemma particleCount_div: "nat \<lfloor>real n / 6000\<rfloor> = n div 6000"
proof -
  have "\<lfloor>real n / 6000\<rfloor> = \<lfloor>real_of_int (int n) / real_of_int 6000\<rfloor>" by simp
  also have "\<dots> = int n div 6000" by (rule floor_divide_of_int_eq)
  finally show ?thesis by (simp add: nat_div_distrib)
qed

lemma initParticles_eq:
  "particles (initParticles rng s) =
     map (\<lambda>j. (Particle (canvas s) (\<lambda>q. rng (10 * j + q)))
                 \<lparr>y := rng (10 * j + 9) * real (height (canvas s))\<rparr>)
         [0..<(width (canvas s) * height (canvas s)) div 6000]"
  unfolding initParticles_def Let_def particleCount_div
  by (simp add: initParticles_loop_eq)

lemma Particle_y_override_range:
  assumes "valid_draws rng" and "0 < height cv"
  shows "0 \<le> y ((Particle cv d)\<lparr>y := rng k * real (height cv)\<rparr>) \<and>
         y ((Particle cv d)\<lparr>y := rng k * real (height cv)\<rparr>) < real (height cv)"
  using valid_drawsD[OF assms(1), of k] assms(2) by simp

text \<open>
  C5. \<^verbatim>\<open>initParticles\<close> leaves exactly \<open>floor (width * height / 6000)\<close> particles (80 on
  a canvas of 800 by 600), whatever the list held before; particle \<open>i\<close> is a fresh
  \<^verbatim>\<open>Particle\<close> whose \<open>y\<close> is replaced by a random draw times the height, a value in
  \<open>[0, canvas.height)\<close>.
\<close>

theorem initParticles_field:
  "length (particles (initParticles rng s)) = (width (canvas s) * height (canvas s)) div 6000 \<and>
   (width (canvas s) = 800 \<and> height (canvas s) = 600 \<longrightarrow>
      length (particles (initParticles rng s)) = 80) \<and>
   initParticles rng (s\<lparr>particles := old\<rparr>) = initParticles rng s \<and>
   (\<forall>i < length (particles (initParticles rng s)).
      particles (initParticles rng s) ! i =
        (Particle (canvas s) (\<lambda>q. rng (10 * i + q)))
          \<lparr>y := rng (10 * i + 9) * real (height (canvas s))\<rparr>) \<and>
   (valid_draws rng \<longrightarrow>
      (\<forall>p \<in> set (particles (initParticles rng s)). 0 \<le> y p \<and> y p < real (height (canvas s))))"
proof -
  have len: "length (particles (initParticles rng s)) = (width (canvas s) * height (canvas s)) div 6000"
    by (simp add: initParticles_eq)
  have l80: "width (canvas s) = 800 \<and> height (canvas s) = 600 \<longrightarrow>
      length (particles (initParticles rng s)) = 80"
    using len by simp
  have old: "initParticles rng (s\<lparr>particles := old\<rparr>) = initParticles rng s"
    by (simp add: initParticles_def Let_def)
  have nth: "\<forall>i < length (particles (initParticles rng s)).
      particles (initParticles rng s) ! i =
        (Particle (canvas s) (\<lambda>q. rng (10 * i + q)))
          \<lparr>y := rng (10 * i + 9) * real (height (canvas s))\<rparr>"
    by (simp add: initParticles_eq)
  have rng: "valid_draws rng \<longrightarrow>
      (\<forall>p \<in> set (particles (initParticles rng s)). 0 \<le> y p \<and> y p < real (height (canvas s)))"
  proof (intro impI ballI)
    fix p assume v: "valid_draws rng" and "p \<in> set (particles (initParticles rng s))"
    then obtain j where j: "j < (width (canvas s) * height (canvas s)) div 6000"
      and p: "p = (Particle (canvas s) (\<lambda>q. rng (10 * j + q)))
                    \<lparr>y := rng (10 * j + 9) * real (height (canvas s))\<rparr>"
      by (auto simp add: initParticles_eq)
    from j have "0 < height (canvas s)" by (cases "height (canvas s)") simp_all
    with v show "0 \<le> y p \<and> y p < real (height (canvas s))"
      unfolding p by (rule Particle_y_override_range)
  qed
  from len l80 old nth rng show ?thesis by blast
qed

theorem initParticles_field_witness:
  "length (particles (initParticles (const_draws (1 / 2)) page0)) = 80 \<and>
   valid_draws (const_draws (1 / 2)) \<and>
   width (canvas page0) = 800 \<and> height (canvas page0) = 600 \<and>
   y (particles (initParticles (const_draws (1 / 2)) page0) ! 0) = 300 \<and>
   y (particles (initParticles (const_draws (1 / 2)) page0) ! 79) = 300"
proof -
  have c: "canvas page0 = canvas0" "width canvas0 = 800" "height canvas0 = 600"
    by (simp_all add: page0_def canvas0_def)
  from initParticles_field[of "const_draws (1 / 2)" page0] valid_half
  show ?thesis by (simp add: c)
qed

subsection \<open>drawConnections without a pointer\<close>

text \<open>
  C7. When \<^verbatim>\<open>mouse.x\<close> or \<^verbatim>\<open>mouse.y\<close> is null, \<^verbatim>\<open>drawConnections\<close> makes no call on
  the context and leaves the whole page state as it is.
\<close>

theorem drawConnections_no_pointer:
  assumes "mouse_x (mouse s) = None \<or> mouse_y (mouse s) = None"
  shows "drawConnections s = s"
  using assms by (auto simp add: drawConnections_def split: option.splits)

theorem drawConnections_no_pointer_witness:
  "(mouse_x (mouse (page0\<lparr>mouse := mouse_init\<lparr>mouse_x := Some 400\<rparr>\<rparr>)) = None \<or>
    mouse_y (mouse (page0\<lparr>mouse := mouse_init\<lparr>mouse_x := Some 400\<rparr>\<rparr>)) = None) \<and>
   ctx (drawConnections (page0\<lparr>mouse := mouse_init\<lparr>mouse_x := Some 400\<rparr>\<rparr>)) = [] \<and>
   particles (drawConnections (page0\<lparr>mouse := mouse_init\<lparr>mouse_x := Some 400\<rparr>\<rparr>)) = [particle0]"
proof -
  have h: "mouse_x (mouse (page0\<lparr>mouse := mouse_init\<lparr>mouse_x := Some 400\<rparr>\<rparr>)) = None \<or>
           mouse_y (mouse (page0\<lparr>mouse := mouse_init\<lparr>mouse_x := Some 400\<rparr>\<rparr>)) = None"
    by (simp add: mouse_init_def)
  from drawConnections_no_pointer[OF h] h show ?thesis by (simp add: page0_def)
qed

subsection \<open>drawConnections with a pointer\<close>

declare connect_inner.simps [simp del]

declare connect_outer.simps [simp del]

lemma connect_inner_eq:
  "connect_inner color ps i j out =
     out @ concat (map (\<lambda>j.
        if sqrt ((x (ps ! i) - x (ps ! j)) * (x (ps ! i) - x (ps ! j)) +
                 (y (ps ! i) - y (ps ! j)) * (y (ps ! i) - y (ps ! j))) < 80
        then pair_line color
               ((1 - sqrt ((x (ps ! i) - x (ps ! j)) * (x (ps ! i) - x (ps ! j)) +
                           (y (ps ! i) - y (ps ! j)) * (y (ps ! i) - y (ps ! j))) / 80) * 0.1)
               (ps ! i) (ps ! j)
        else []) [j..<length ps])"
proof (induction color ps i j out rule: connect_inner.induct)
  case (1 color ps i j out)
  show ?case
  proof (cases "j < length ps")
    case False
    then show ?thesis by (subst connect_inner.simps) simp
  next
    case True
    show ?thesis
      using "1.IH"[OF True refl refl refl refl] True
      by (subst connect_inner.simps) (simp add: Let_def upt_conv_Cons)
  qed
qed

lemma connect_outer_eq:
  "connect_outer color mx my r ps i out =
     out @ concat (map (\<lambda>i.
        if sqrt ((x (ps ! i) - mx) * (x (ps ! i) - mx) + (y (ps ! i) - my) * (y (ps ! i) - my))
           < r * 1.5
        then pointer_line color
               ((1 - sqrt ((x (ps ! i) - mx) * (x (ps ! i) - mx) +
                           (y (ps ! i) - my) * (y (ps ! i) - my)) / (r * 1.5)) * 0.15)
               (ps ! i) mx my @
             concat (map (\<lambda>j.
               if sqrt ((x (ps ! i) - x (ps ! j)) * (x (ps ! i) - x (ps ! j)) +
                        (y (ps ! i) - y (ps ! j)) * (y (ps ! i) - y (ps ! j))) < 80
               then pair_line color
                      ((1 - sqrt ((x (ps ! i) - x (ps ! j)) * (x (ps ! i) - x (ps ! j)) +
                                  (y (ps ! i) - y (ps ! j)) * (y (ps ! i) - y (ps ! j))) / 80) * 0.1)
                      (ps ! i) (ps ! j)
               else []) [i + 1..<length ps])
        else []) [i..<length ps])"
proof (induction color mx my r ps i out rule: connect_outer.induct)
  case (1 color mx my r ps i out)
  show ?case
  proof (cases "i < length ps")
    case False
    then show ?thesis by (subst connect_outer.simps) simp
  next
    case True
    show ?thesis
      using "1.IH"[OF True refl refl refl refl] True
      by (subst connect_outer.simps) (simp add: Let_def upt_conv_Cons connect_inner_eq)
  qed
qed

text \<open>
  C6. With a pointer present, the calls that \<^verbatim>\<open>drawConnections\<close> makes on the context
  are, for each particle \<open>i\<close> in order that is nearer than 225 to the pointer, the six
  calls of its line to the pointer followed, for each later particle \<open>j\<close> nearer than 80
  to particle \<open>i\<close>, by the six calls of the line from \<open>i\<close> to \<open>j\<close>, stroked with alpha
  \<open>(1 - distance / 80) * 0.1\<close> and width \<open>0.3\<close>; no other call is made, and the distance
  of particle \<open>j\<close> to the pointer plays no part.
\<close>

theorem drawConnections_lines:
  assumes "mouse_x (mouse s) = Some mx" and "mouse_y (mouse s) = Some my"
    and "radius (mouse s) = 150"
  shows "drawConnections s =
     s\<lparr>ctx := ctx s @ concat (map (\<lambda>i.
        let p = particles s ! i;
            color = (if data_theme s = ''dark'' then ''255, 255, 255'' else ''0, 0, 0'');
            distance = sqrt ((x p - mx) * (x p - mx) + (y p - my) * (y p - my))
        in if distance < 225
           then [BeginPath, StrokeStyle color ((1 - distance / 225) * 0.15), LineWidth 0.5,
                 MoveTo (x p) (y p), LineTo mx my, Stroke] @
                concat (map (\<lambda>j.
                  let q = particles s ! j;
                      distance2 = sqrt ((x p - x q) * (x p - x q) + (y p - y q) * (y p - y q))
                  in if distance2 < 80
                     then [BeginPath, StrokeStyle color ((1 - distance2 / 80) * 0.1),
                           LineWidth 0.3, MoveTo (x p) (y p), LineTo (x q) (y q), Stroke]
                     else []) [i + 1..<length (particles s)])
           else []) [0..<length (particles s)])\<rparr>"
  using assms
  by (simp add: drawConnections_def connect_outer_eq pointer_line_def pair_line_def
      theme_color_def Let_def cong: if_cong)

theorem drawConnections_lines_witness:
  "mouse_x (mouse row_page) = Some 0 \<and> mouse_y (mouse row_page) = Some 0 \<and>
   radius (mouse row_page) = 150 \<and>
   ctx (drawConnections row_page) =
     [BeginPath, StrokeStyle ''255, 255, 255'' (1 / 60), LineWidth 0.5,
      MoveTo 200 0, LineTo 0 0, Stroke,
      BeginPath, StrokeStyle ''255, 255, 255'' (1 / 40), LineWidth 0.3,
      MoveTo 200 0, LineTo 260 0, Stroke]"
proof -
  have s1: "sqrt 40000 = 200" using real_sqrt_abs2[of 200] by simp
  have s2: "sqrt 67600 = 260" using real_sqrt_abs2[of 260] by simp
  have s3: "sqrt 102400 = 320" using real_sqrt_abs2[of 320] by simp
  have s4: "sqrt 3600 = 60" using real_sqrt_abs2[of 60] by simp
  have s5: "sqrt 14400 = 120" using real_sqrt_abs2[of 120] by simp
  have u: "[0..<3] = [0, 1, 2]" "[Suc 0..<3] = [1, 2]" "[2..<3] = [2]" "[3..<3] = []"
    by (simp_all add: upt_rec)
  have h1: "mouse_x (mouse row_page) = Some 0" and h2: "mouse_y (mouse row_page) = Some 0"
    and h3: "radius (mouse row_page) = 150"
    by (simp_all add: row_page_def)
  from drawConnections_lines[OF h1 h2 h3] h1 h2 h3
  show ?thesis
    by (simp add: row_page_def Let_def blank_def s1 s2 s3 s4 s5 u)
qed

subsection \<open>The debounced resize handler\<close>

lemma advance_pending:
  assumes "timers st = [(h, due)]" and "t < due"
  shows "advance t st = st"
  using assms by (simp add: advance_def)

lemma on_resize_pending:
  assumes "timers st = [(h, due)]" and "resizeTimeout st = Some h"
  shows "timers (on_resize t st) = [(next_id st, t + 200)] \<and>
         resizeTimeout (on_resize t st) = Some (next_id st) \<and>
         rebuilds (on_resize t st) = rebuilds st"
  using assms by (simp add: on_resize_def clearTimeout_def setTimeout_def Let_def)

lemma on_resize_idle:
  assumes "timers st = []"
  shows "timers (on_resize t st) = [(next_id st, t + 200)] \<and>
         resizeTimeout (on_resize t st) = Some (next_id st) \<and>
         rebuilds (on_resize t st) = rebuilds st"
  using assms by (simp add: on_resize_def clearTimeout_def setTimeout_def Let_def)

lemma burst_pending:
  assumes "timers st = [(h, a + 200)]" and "resizeTimeout st = Some h"
    and "lo \<le> a" and "\<forall>t \<in> set ts. lo \<le> t \<and> t < lo + 200"
  shows "(\<exists>h'. timers (resize_events ts st) = [(h', last (a # ts) + 200)] \<and>
               resizeTimeout (resize_events ts st) = Some h') \<and>
         rebuilds (resize_events ts st) = rebuilds st"
  using assms
proof (induction ts arbitrary: st h a)
  case Nil
  then show ?case by simp
next
  case (Cons t ts)
  from Cons.prems have lt: "t < a + 200" and lo: "lo \<le> t" by auto
  have adv: "advance t st = st"
    using Cons.prems(1) lt by (rule advance_pending)
  have step: "timers (on_resize t st) = [(next_id st, t + 200)] \<and>
         resizeTimeout (on_resize t st) = Some (next_id st) \<and>
         rebuilds (on_resize t st) = rebuilds st"
    using Cons.prems(1,2) by (rule on_resize_pending)
  from Cons.prems have rest: "\<forall>t \<in> set ts. lo \<le> t \<and> t < lo + 200" by simp
  have "(\<exists>h'. timers (resize_events ts (on_resize t st)) = [(h', last (t # ts) + 200)] \<and>
               resizeTimeout (resize_events ts (on_resize t st)) = Some h') \<and>
         rebuilds (resize_events ts (on_resize t st)) = rebuilds (on_resize t st)"
    using step lo rest by (intro Cons.IH) simp_all
  then show ?case using step adv by simp
qed

lemma burst_idle:
  assumes "timers st = []" and "ts \<noteq> []"
    and "\<forall>t \<in> set ts. hd ts \<le> t \<and> t < hd ts + 200"
  shows "(\<exists>h'. timers (resize_events ts st) = [(h', last ts + 200)] \<and>
               resizeTimeout (resize_events ts st) = Some h') \<and>
         rebuilds (resize_events ts st) = rebuilds st"
proof -
  obtain t ts' where ts: "ts = t # ts'" using assms(2) by (cases ts) auto
  have adv: "advance t st = st" using assms(1) by (simp add: advance_def)
  have step: "timers (on_resize t st) = [(next_id st, t + 200)] \<and>
         resizeTimeout (on_resize t st) = Some (next_id st) \<and>
         rebuilds (on_resize t st) = rebuilds st"
    using assms(1) by (rule on_resize_idle)
  from assms(3) ts have rest: "\<forall>u \<in> set ts'. t \<le> u \<and> u < t + 200" by simp
  have "(\<exists>h'. timers (resize_events ts' (on_resize t st)) = [(h', last (t # ts') + 200)] \<and>
               resizeTimeout (resize_events ts' (on_resize t st)) = Some h') \<and>
         rebuilds (resize_events ts' (on_resize t st)) = rebuilds (on_resize t st)"
    using step rest by (intro burst_pending[where lo = t]) simp_all
  then show ?thesis using step adv ts by simp
qed

lemma window_bounds:
  assumes "sorted ts" and "ts \<noteq> []" and "last ts - hd ts < 200"
  shows "\<forall>t \<in> set ts. hd ts \<le> t \<and> t < hd ts + (200::real)"
proof
  fix t assume t: "t \<in> set ts"
  obtain a ts' where ts: "ts = a # ts'" using assms(2) by (cases ts) auto
  have lo: "hd ts \<le> t" using assms(1) t ts by auto
  obtain i where i: "i < length ts" "ts ! i = t" using t by (auto simp add: in_set_conv_nth)
  have "ts ! i \<le> ts ! (length ts - 1)"
    using assms(1) i(1) by (intro sorted_nth_mono) simp_all
  then have "t \<le> last ts" using i(2) assms(2) by (simp add: last_conv_nth)
  with lo assms(3) show "hd ts \<le> t \<and> t < hd ts + 200" by simp
qed

text \<open>
  C8. Five resize events within a window of 200 ms, arriving while no timeout is
  pending, cause exactly one rebuild; it runs 200 ms after the last event, none runs
  before, and nothing stays pending after it: the timeouts of the first four events
  are cancelled.
\<close>

theorem resize_burst_one_rebuild:
  assumes "timers st = []" and "length ts = 5" and "sorted ts"
    and "last ts - hd ts < 200" and "last ts + 200 \<le> T"
  shows "rebuilds (advance T (resize_events ts st)) = rebuilds st @ [last ts + 200] \<and>
         timers (advance T (resize_events ts st)) = [] \<and>
         (\<forall>T' < last ts + 200. rebuilds (advance T' (resize_events ts st)) = rebuilds st)"
proof -
  have ne: "ts \<noteq> []" using assms(2) by auto
  have w: "\<forall>t \<in> set ts. hd ts \<le> t \<and> t < hd ts + 200"
    using assms(3) ne assms(4) by (rule window_bounds)
  obtain h' where tm: "timers (resize_events ts st) = [(h', last ts + 200)]"
    and rb: "rebuilds (resize_events ts st) = rebuilds st"
    using burst_idle[OF assms(1) ne w] by blast
  show ?thesis using tm rb assms(5) by (simp add: advance_def)
qed

theorem resize_burst_one_rebuild_witness:
  "timers loop_init = [] \<and>
   length [0, 40, 80, 120, 160 :: real] = 5 \<and> sorted [0, 40, 80, 120, 160 :: real] \<and>
   last [0, 40, 80, 120, 160 :: real] - hd [0, 40, 80, 120, 160] < 200 \<and>
   last [0, 40, 80, 120, 160 :: real] + 200 \<le> 1000 \<and>
   rebuilds (advance 1000 (resize_events [0, 40, 80, 120, 160] loop_init)) = [360] \<and>
   rebuilds (advance 359 (resize_events [0, 40, 80, 120, 160] loop_init)) = []"
proof -
  have h: "timers loop_init = []" by (simp add: loop_init_def)
  from resize_burst_one_rebuild[OF h, of "[0, 40, 80, 120, 160]" 1000] h
  show ?thesis by (simp add: loop_init_def)
qed

subsection \<open>Relaxation with the pointer cleared\<close>

lemma update_interact_cleared:
  assumes "mouse_x m = None \<or> mouse_y m = None"
  shows "update_interact m p = p"
  using assms by (auto simp add: update_interact_def split: option.splits)

lemma update_bounds_keeps:
  assumes "\<not> y p > real (height cv) + 10"
  shows "opacity (update_bounds cv d p) = opacity p \<and> vy (update_bounds cv d p) = vy p \<and>
         baseSpeedY (update_bounds cv d p) = baseSpeedY p"
  using assms by (simp add: update_bounds_def Let_def)

lemma update_opacity_cleared:
  assumes "mouse_x m = None \<or> mouse_y m = None"
    and "\<not> y (update_motion (update_interact m p)) > real (height cv) + 10"
  shows "opacity (update cv m d p) - 0.4 = 0.99 * (opacity p - 0.4)"
proof -
  have "opacity (update cv m d p) = opacity (update_motion (update_interact m p))"
    unfolding update_def using update_bounds_keeps[OF assms(2)] by simp
  also have "\<dots> = opacity p + (0.4 - opacity p) * 0.01"
    by (simp add: update_interact_cleared[OF assms(1)] update_motion_def Let_def)
  finally show ?thesis by (simp add: algebra_simps)
qed

lemma update_bounds_fields:
  "y (update_bounds cv d p) = (if y p > real (height cv) + 10 then - 10 else y p)"
  "vy (update_bounds cv d p) = (if y p > real (height cv) + 10 then 0 else vy p)"
  "baseSpeedY (update_bounds cv d p) =
     (if y p > real (height cv) + 10 then d 3 * 0.3 + 0.1 else baseSpeedY p)"
  "opacity (update_bounds cv d p) =
     (if y p > real (height cv) + 10 then d 5 * 0.5 + 0.3 else opacity p)"
  "friction (update_bounds cv d p) = friction p"
  "returnSpeed (update_bounds cv d p) = returnSpeed p"
  by (simp_all add: update_bounds_def reset_def Let_def)

lemma vy_cleared_fixed_point:
  assumes "mouse_x m = None \<or> mouse_y m = None"
    and "\<not> y (update_motion (update_interact m p)) > real (height cv) + 10"
    and "friction p = 0.98" and "returnSpeed p = 0.02"
  shows "baseSpeedY (update cv m d p) = baseSpeedY p \<and>
         vy (update cv m d p) - 50 / 99 * baseSpeedY p =
           0.9604 * (vy p - 50 / 99 * baseSpeedY p)"
proof -
  have b: "baseSpeedY (update cv m d p) = baseSpeedY p"
    unfolding update_def using update_bounds_keeps[OF assms(2)]
    by (simp add: update_interact_cleared[OF assms(1)] update_motion_def Let_def)
  have "vy (update cv m d p) = vy (update_motion p)"
    unfolding update_def using update_bounds_keeps[OF assms(2)]
    by (simp add: update_interact_cleared[OF assms(1)])
  also have "\<dots> = vy p * 0.98 + (baseSpeedY p - vy p * 0.98) * 0.02"
    by (simp add: update_motion_def Let_def assms(3,4))
  finally have v: "vy (update cv m d p) = vy p * 0.98 + (baseSpeedY p - vy p * 0.98) * 0.02" .
  have "vy p * 0.98 + (baseSpeedY p - vy p * 0.98) * 0.02 - 50 / 99 * baseSpeedY p =
        0.9604 * (vy p - 50 / 99 * baseSpeedY p)"
    by (simp add: algebra_simps)
  with b v show ?thesis by simp
qed

lemma opacity_run_cleared:
  assumes "\<forall>f \<in> set fs. mouse_x (fst f) = None \<or> mouse_y (fst f) = None"
    and "no_respawn cv fs p"
  shows "opacity (updates cv fs p) - 0.4 = 0.99 ^ length fs * (opacity p - 0.4)"
  using assms
proof (induction fs arbitrary: p)
  case Nil
  then show ?case by simp
next
  case (Cons f fs)
  obtain m d where f: "f = (m, d)" by (cases f)
  from Cons.prems f have c: "mouse_x m = None \<or> mouse_y m = None"
    and n: "\<not> y (update_motion (update_interact m p)) > real (height cv) + 10"
    and r: "no_respawn cv fs (update cv m d p)"
    and a: "\<forall>f \<in> set fs. mouse_x (fst f) = None \<or> mouse_y (fst f) = None"
    by simp_all
  have "opacity (updates cv fs (update cv m d p)) - 0.4 =
        0.99 ^ length fs * (opacity (update cv m d p) - 0.4)"
    using a r by (rule Cons.IH)
  also have "\<dots> = 0.99 ^ length fs * (0.99 * (opacity p - 0.4))"
    by (simp only: update_opacity_cleared[OF c n])
  finally show ?case using f by simp
qed

lemma pushed_motion:
  "update_motion (update_interact pointer_above particle0) =
     particle0\<lparr>vx := 0, vy := 0.19708, swing := pi + 0.0045,
       x := 400 + sin (pi + 0.0045) * 0.045, y := 300.19708, opacity := 0.5683\<rparr>"
proof -
  have s: "sqrt 18225 = 135" using real_sqrt_abs2[of 135] by simp
  have a: "atan2 135 0 = pi / 2" by (simp add: atan2_def)
  show ?thesis
    by (simp add: update_interact_def update_motion_def pointer_above_def particle0_eq
        Let_def s a)
qed

lemma pushed_fields:
  "vy pushed = 0.19708" "baseSpeedY pushed = 0.25" "friction pushed = 0.98"
  "returnSpeed pushed = 0.02" "y pushed = 300.19708"
  unfolding pushed_def update_def pushed_motion
  by (simp_all add: update_bounds_fields canvas0_def) (simp_all add: particle0_eq)

text \<open>
  C2. With the pointer cleared, \<open>vy\<close> should move towards \<open>baseSpeedY\<close> in every call of
  \<^verbatim>\<open>update()\<close> and never away from it. The code does otherwise: line 123 applies
  friction to \<open>vy\<close> before line 126 returns it towards \<open>baseSpeedY\<close>. The particle
  \<open>pushed\<close> (made on a canvas of 800 by 600 with every draw \<open>1 / 2\<close>, then updated once
  under a pointer 135 above it) has \<open>vy = 0.19708\<close>, below its \<open>baseSpeedY = 0.25\<close>; the
  next call, with the pointer cleared, leaves \<open>baseSpeedY\<close> as it is and takes \<open>vy\<close> to
  \<open>0.194275632\<close>, further from \<open>baseSpeedY\<close> than before.
\<close>

theorem vy_return_leaves_base:
  "vy pushed = 0.19708 \<and> baseSpeedY pushed = 0.25 \<and>
   friction pushed = 0.98 \<and> returnSpeed pushed = 0.02 \<and>
   mouse_x mouse_init = None \<and> mouse_y mouse_init = None \<and>
   vy (update canvas0 mouse_init (const_draws (1 / 2)) pushed) = 0.194275632 \<and>
   baseSpeedY (update canvas0 mouse_init (const_draws (1 / 2)) pushed) = 0.25 \<and>
   \<bar>vy (update canvas0 mouse_init (const_draws (1 / 2)) pushed) -
      baseSpeedY (update canvas0 mouse_init (const_draws (1 / 2)) pushed)\<bar>
     > \<bar>vy pushed - baseSpeedY pushed\<bar>"
proof -
  have p2: "vy (update canvas0 mouse_init (const_draws (1 / 2)) pushed) = 0.194275632"
      "baseSpeedY (update canvas0 mouse_init (const_draws (1 / 2)) pushed) = 0.25"
    by (simp_all add: update_def update_interact_no_pointer update_bounds_fields
        update_motion_def canvas0_def Let_def pushed_fields)
  have m: "mouse_x mouse_init = None" "mouse_y mouse_init = None"
    by (simp_all add: mouse_init_def)
  show ?thesis by (simp add: pushed_fields p2 m)
qed

end
